theory Spec2Isabelle
  imports Main
begin

section \<open>The user service of meals-finder (backend/internal/services/user.service.go)\<close>

text \<open>
  The service is glue between four collaborators that live outside the file: the generated
  query layer (package repository), request validation (package models), the bcrypt and jwt
  libraries, and the process environment (clock, log, signing key). Every call the service
  makes to one of them is a call of a function taken as a parameter, so that each result
  below holds for whatever these collaborators do, unless a theorem says otherwise.

  A Go result \<open>(v, err)\<close> is the pair \<open>(v, err)\<close> with \<open>err :: error option\<close> and \<open>None\<close> for
  \<open>nil\<close>; both components are kept, since Go returns both. The database lives in the store
  and the clock and the log in the process, so the state a call runs in is a pair
  \<open>(db, env)\<close>, and every call returns the state it leaves. The \<open>ctx\<close> argument is only
  handed on to the store and is not modelled. A request is passed by pointer; the model
  takes the record it points to. The receiver's \<open>Repo\<close> field is the query layer \<open>R\<close> each
  method of \<open>BaseUserService\<close> takes.
\<close>

subsection \<open>Errors\<close>

text \<open>
  Go's \<open>error\<close> values. \<open>ErrUnauthorizedUser\<close> and \<open>ErrInternalFailure\<close> are the two values
  package services declares; \<open>ErrNoRows\<close> is pgx's, \<open>PgError\<close> carries the SQLSTATE code of a
  server error, \<open>OtherError\<close> is any other error with its text.
\<close>

datatype error =
    ErrUnauthorizedUser
  | ErrInternalFailure
  | ErrNoRows
  | PgError string
  | OtherError string

text \<open>An argument of \<open>log.Println\<close>: a string, or an error printed by its text.\<close>

datatype logarg = Str string | Err error

subsection \<open>Time\<close>

text \<open>
  A \<open>time.Time\<close> is its number of nanoseconds since the Unix epoch, a \<open>time.Duration\<close> a
  number of nanoseconds. \<open>Unix\<close> is the number of whole seconds since the epoch, rounded
  down. The integers are unbounded: a reading of the clock and a day added to it are far
  from the ends of Go's 64-bit range.
\<close>

type_synonym Time = int
type_synonym Duration = int

definition Hour :: Duration where
  "Hour = 3600 * 1000000000"

definition Add :: "Time \<Rightarrow> Duration \<Rightarrow> Time" where
  "Add t d = t + d"

definition Unix :: "Time \<Rightarrow> int" where
  "Unix t = t div 1000000000"

subsection \<open>Tokens\<close>

text \<open>
  \<open>jwt.MapClaims\<close> is a map from claim names to values; the service stores a string under
  \<open>sub\<close> and integers under \<open>exp\<close> and \<open>iat\<close>.
\<close>

datatype SigningMethod = HS256 | HS384 | HS512

datatype claim = StrV string | IntV int

type_synonym MapClaims = "string \<rightharpoonup> claim"

record Token =
  Method :: SigningMethod
  Claims :: MapClaims

definition NewWithClaims :: "SigningMethod \<Rightarrow> MapClaims \<Rightarrow> Token" where
  "NewWithClaims m c = \<lparr>Method = m, Claims = c\<rparr>"

subsection \<open>Requests, parameters and rows\<close>

text \<open>
  The request types of package models and the parameter and row types of package
  repository, with the fields the service reads and writes. The service only copies the
  profile fields, so their representation plays no role.
\<close>

record LoginUserRequest =
  Login :: string
  Password :: string

record LoginUserWithUsernameRow =
  Username :: string
  Passwdhash :: string

record CreateUserRequest =
  Username :: string
  Passwdhash :: string
  Email :: string
  PhoneNumber :: string
  Age :: int
  Sex :: string

record CreateUserParams =
  Username :: string
  Passwdhash :: string
  Email :: string
  PhoneNumber :: string
  Age :: int
  Sex :: string

record UpdateUserSettingsRequest =
  Email :: string
  Name :: string
  Surname :: string
  PhoneNumber :: string
  Age :: int
  Sex :: string
  Weight :: int
  Height :: int
  Bmi :: int

record UpdateUserSettingsParams =
  Username :: string
  Email :: string
  Name :: string
  Surname :: string
  PhoneNumber :: string
  Age :: int
  Sex :: string
  Weight :: int
  Height :: int
  Bmi :: int

record UserTag =
  Name :: string
  TagType :: string

record InsertUserTagParams =
  Username :: string
  TagName :: string
  TagTypeName :: string

record DeleteUserTagParams =
  Username :: string
  TagName :: string

text \<open>
  Modelled from the spec: the declarations of \<open>repository.GetUserDataRow\<close> and
  \<open>repository.DisplayUserTagRow\<close> are missing. The spec calls the first a profile record
  and the second a (tag name, tag type) pair.
\<close>

record GetUserDataRow =
  Username :: string
  Email :: string
  Name :: string
  Surname :: string
  PhoneNumber :: string
  Age :: int
  Sex :: string
  Weight :: int
  Height :: int
  Bmi :: int

record DisplayUserTagRow =
  TagName :: string
  TagTypeName :: string

subsection \<open>The collaborators\<close>

text \<open>
  \<open>repository.Queries\<close>: one function per statement, over a database state \<open>'db\<close>.
\<close>

record 'db Queries =
  LoginUserWithUsername :: "string \<Rightarrow> 'db \<Rightarrow> (LoginUserWithUsernameRow \<times> error option) \<times> 'db"
  CreateUser :: "CreateUserParams \<Rightarrow> 'db \<Rightarrow> error option \<times> 'db"
  GetUserData :: "string \<Rightarrow> 'db \<Rightarrow> (GetUserDataRow \<times> error option) \<times> 'db"
  UpdateUserSettings :: "UpdateUserSettingsParams \<Rightarrow> 'db \<Rightarrow> error option \<times> 'db"
  InsertUserTag :: "InsertUserTagParams \<Rightarrow> 'db \<Rightarrow> error option \<times> 'db"
  DeleteUserTag :: "DeleteUserTagParams \<Rightarrow> 'db \<Rightarrow> error option \<times> 'db"
  DisplayUserTag :: "string \<Rightarrow> 'db \<Rightarrow> (DisplayUserTagRow list \<times> error option) \<times> 'db"

text \<open>
  What the service uses of packages models, bcrypt, jwt, time and log, over a process
  state \<open>'e\<close>, and \<open>key\<close>, the value of \<open>APP_JWT_KEY\<close> read once when the process starts.
  \<open>GenerateFromPassword\<close> draws a random salt and \<open>Now\<close> reads the clock, so both take the
  process state and return it. \<open>Validate\<close> only reads the request.
\<close>

record 'e Libs =
  Validate :: "CreateUserRequest \<Rightarrow> error option"
  GenerateFromPassword :: "string \<Rightarrow> int \<Rightarrow> 'e \<Rightarrow> (string \<times> error option) \<times> 'e"
  CompareHashAndPassword :: "string \<Rightarrow> string \<Rightarrow> error option"
  SignedString :: "Token \<Rightarrow> string \<Rightarrow> string \<times> error option"
  Now :: "'e \<Rightarrow> Time \<times> 'e"
  Println :: "logarg list \<Rightarrow> 'e \<Rightarrow> 'e"
  key :: string

definition DefaultCost :: int where
  "DefaultCost = 10"

subsection \<open>BaseUserService\<close>

text \<open>
  \<open>generateJWT\<close> reads the clock twice, first for \<open>exp\<close> and then for \<open>iat\<close>, in the order
  the entries of the map literal are written.
\<close>

definition generateJWT :: "'e Libs \<Rightarrow> string \<Rightarrow> 'e \<Rightarrow> (string \<times> error option) \<times> 'e" where
  "generateJWT L username e =
     (case Now L e of (t1, e1) \<Rightarrow>
      case Now L e1 of (t2, e2) \<Rightarrow>
        (SignedString L
           (NewWithClaims HS256
              [''sub'' \<mapsto> StrV username,
               ''exp'' \<mapsto> IntV (Unix (Add t1 (24 * Hour))),
               ''iat'' \<mapsto> IntV (Unix t2)])
           (key L),
         e2))"

definition BaseUserService_LoginUser ::
  "'db Queries \<Rightarrow> 'e Libs \<Rightarrow> LoginUserRequest \<Rightarrow> 'db \<times> 'e
     \<Rightarrow> (string \<times> error option) \<times> ('db \<times> 'e)" where
  "BaseUserService_LoginUser R L loginData w =
     (case w of (d, e) \<Rightarrow>
      case LoginUserWithUsername R (Login loginData) d of ((user, err), d1) \<Rightarrow>
        (case err of
           Some _ \<Rightarrow> (([], Some ErrUnauthorizedUser), (d1, e))
         | None \<Rightarrow>
            (case CompareHashAndPassword L (LoginUserWithUsernameRow.Passwdhash user)
                    (Password loginData) of
               Some _ \<Rightarrow> (([], Some ErrUnauthorizedUser), (d1, e))
             | None \<Rightarrow>
                (case generateJWT L (LoginUserWithUsernameRow.Username user) e of
                   ((token, err2), e1) \<Rightarrow>
                     (case err2 of
                        Some er \<Rightarrow> (([], Some ErrInternalFailure), (d1, Println L [Err er] e1))
                      | None \<Rightarrow> ((token, None), (d1, e1)))))))"

definition BaseUserService_CreateUser ::
  "'db Queries \<Rightarrow> 'e Libs \<Rightarrow> CreateUserRequest \<Rightarrow> 'db \<times> 'e \<Rightarrow> error option \<times> ('db \<times> 'e)" where
  "BaseUserService_CreateUser R L req w =
     (case w of (d, e) \<Rightarrow>
       (case Validate L req of
          Some _ \<Rightarrow> (Some ErrInternalFailure, (d, e))
        | None \<Rightarrow>
         (case GenerateFromPassword L (CreateUserRequest.Passwdhash req) DefaultCost e of
            ((hashedPasswd, err), e1) \<Rightarrow>
              (case err of
                 Some er \<Rightarrow>
                   (Some ErrInternalFailure,
                    (d, Println L [Str ''password hashing failed:'', Err er] e1))
               | None \<Rightarrow>
                  (case CreateUser R
                          \<lparr>CreateUserParams.Username = CreateUserRequest.Username req,
                           CreateUserParams.Passwdhash = hashedPasswd,
                           CreateUserParams.Email = CreateUserRequest.Email req,
                           CreateUserParams.PhoneNumber = CreateUserRequest.PhoneNumber req,
                           CreateUserParams.Age = CreateUserRequest.Age req,
                           CreateUserParams.Sex = CreateUserRequest.Sex req\<rparr> d of
                     (err2, d1) \<Rightarrow>
                       (case err2 of
                          Some er \<Rightarrow>
                            (Some ErrInternalFailure,
                             (d1, Println L [Str ''create user failed:'', Err er] e1))
                        | None \<Rightarrow> (None, (d1, e1))))))))"

definition BaseUserService_GetUser ::
  "'db Queries \<Rightarrow> 'e Libs \<Rightarrow> string \<Rightarrow> 'db \<times> 'e
     \<Rightarrow> (GetUserDataRow \<times> error option) \<times> ('db \<times> 'e)" where
  "BaseUserService_GetUser R L username w =
     (case w of (d, e) \<Rightarrow>
      case GetUserData R username d of ((data, err), d1) \<Rightarrow> ((data, err), (d1, e)))"

definition BaseUserService_UpdateUserSettings ::
  "'db Queries \<Rightarrow> 'e Libs \<Rightarrow> UpdateUserSettingsRequest \<Rightarrow> string \<Rightarrow> 'db \<times> 'e
     \<Rightarrow> error option \<times> ('db \<times> 'e)" where
  "BaseUserService_UpdateUserSettings R L req username w =
     (case w of (d, e) \<Rightarrow>
      case UpdateUserSettings R
             \<lparr>UpdateUserSettingsParams.Username = username,
              UpdateUserSettingsParams.Email = UpdateUserSettingsRequest.Email req,
              UpdateUserSettingsParams.Name = UpdateUserSettingsRequest.Name req,
              UpdateUserSettingsParams.Surname = UpdateUserSettingsRequest.Surname req,
              UpdateUserSettingsParams.PhoneNumber = UpdateUserSettingsRequest.PhoneNumber req,
              UpdateUserSettingsParams.Age = UpdateUserSettingsRequest.Age req,
              UpdateUserSettingsParams.Sex = UpdateUserSettingsRequest.Sex req,
              UpdateUserSettingsParams.Weight = UpdateUserSettingsRequest.Weight req,
              UpdateUserSettingsParams.Height = UpdateUserSettingsRequest.Height req,
              UpdateUserSettingsParams.Bmi = UpdateUserSettingsRequest.Bmi req\<rparr> d of
        (err, d1) \<Rightarrow>
          (case err of
             Some er \<Rightarrow>
               (Some ErrInternalFailure,
                (d1, Println L [Str ''update user settings failed:'', Err er] e))
           | None \<Rightarrow> (None, (d1, e))))"

definition BaseUserService_AddUserTag ::
  "'db Queries \<Rightarrow> 'e Libs \<Rightarrow> string \<Rightarrow> UserTag \<Rightarrow> 'db \<times> 'e \<Rightarrow> error option \<times> ('db \<times> 'e)" where
  "BaseUserService_AddUserTag R L username userTag w =
     (case w of (d, e) \<Rightarrow>
      case InsertUserTag R
             \<lparr>InsertUserTagParams.Username = username,
              InsertUserTagParams.TagName = UserTag.Name userTag,
              InsertUserTagParams.TagTypeName = TagType userTag\<rparr> d of
        (err, d1) \<Rightarrow>
          (case err of
             Some er \<Rightarrow> (Some er, (d1, Println L [Err er] e))
           | None \<Rightarrow> (None, (d1, e))))"

definition BaseUserService_DeleteUserTag ::
  "'db Queries \<Rightarrow> 'e Libs \<Rightarrow> string \<Rightarrow> string \<Rightarrow> 'db \<times> 'e \<Rightarrow> error option \<times> ('db \<times> 'e)" where
  "BaseUserService_DeleteUserTag R L username tagName w =
     (case w of (d, e) \<Rightarrow>
      case DeleteUserTag R
             \<lparr>DeleteUserTagParams.Username = username,
              DeleteUserTagParams.TagName = tagName\<rparr> d of
        (err, d1) \<Rightarrow>
          (case err of
             Some er \<Rightarrow> (Some er, (d1, Println L [Err er] e))
           | None \<Rightarrow> (None, (d1, e))))"

text \<open>On an error the result list is \<open>nil\<close>, the empty list here.\<close>

definition BaseUserService_DisplayUserTag ::
  "'db Queries \<Rightarrow> 'e Libs \<Rightarrow> string \<Rightarrow> 'db \<times> 'e
     \<Rightarrow> (DisplayUserTagRow list \<times> error option) \<times> ('db \<times> 'e)" where
  "BaseUserService_DisplayUserTag R L username w =
     (case w of (d, e) \<Rightarrow>
      case DisplayUserTag R username d of ((data, err), d1) \<Rightarrow>
        (case err of
           Some er \<Rightarrow> (([], Some er), (d1, Println L [Err er] e))
         | None \<Rightarrow> ((data, None), (d1, e))))"

subsection \<open>MockUserService\<close>

text \<open>The mock has no \<open>Repo\<close> field: its methods take no query layer.\<close>

definition MockUserService_LoginUser ::
  "'e Libs \<Rightarrow> LoginUserRequest \<Rightarrow> 'db \<times> 'e \<Rightarrow> (string \<times> error option) \<times> ('db \<times> 'e)" where
  "MockUserService_LoginUser L loginData w =
     (case w of (d, e) \<Rightarrow>
      case Now L e of (t1, e1) \<Rightarrow>
      case Now L e1 of (t2, e2) \<Rightarrow>
        (SignedString L
           (NewWithClaims HS256
              [''sub'' \<mapsto> StrV ''testUser'',
               ''exp'' \<mapsto> IntV (Unix (Add t1 (24 * Hour))),
               ''iat'' \<mapsto> IntV (Unix t2)])
           (key L),
         (d, e2)))"

definition MockUserService_CreateUser ::
  "'e Libs \<Rightarrow> CreateUserRequest \<Rightarrow> 'db \<times> 'e \<Rightarrow> error option \<times> ('db \<times> 'e)" where
  "MockUserService_CreateUser L req w = (None, w)"

subsection \<open>The store\<close>

text \<open>
  Modelled from the spec: the query layer (package repository) and the schema it runs on are
  missing. The spec: a user is identified by a unique username and holds a password hash,
  contact, demographic and profile fields; it is created on registration, changed only by
  the settings update and never deleted; a user tag is a (username, tag name, tag type)
  triple; the store enforces the uniqueness of usernames and of (username, tag name);
  a tag is inserted and deleted as one row by its composite key, and the tags of a user are
  read back as an ordered sequence. Each query is one statement. Any store call can fail:
  here it does when the connection is closed (\<open>online\<close> is false), when a uniqueness
  constraint is violated, and when a lookup of one row finds none.
\<close>

record UserRow =
  Username :: string
  Passwdhash :: string
  Email :: string
  Name :: string
  Surname :: string
  PhoneNumber :: string
  Age :: int
  Sex :: string
  Weight :: int
  Height :: int
  Bmi :: int

record TagRow =
  Username :: string
  TagName :: string
  TagTypeName :: string

record Store =
  online :: bool
  users :: "UserRow list"
  user_tags :: "TagRow list"

definition ErrConnClosed :: error where
  "ErrConnClosed = OtherError ''conn closed''"

definition ErrUniqueViolation :: error where
  "ErrUniqueViolation = PgError ''23505''"

definition find_user :: "string \<Rightarrow> Store \<Rightarrow> UserRow option" where
  "find_user username s = find (\<lambda>u. UserRow.Username u = username) (users s)"

definition find_tag :: "string \<Rightarrow> string \<Rightarrow> Store \<Rightarrow> TagRow option" where
  "find_tag username tagName s =
     find (\<lambda>t. TagRow.Username t = username \<and> TagRow.TagName t = tagName) (user_tags s)"

text \<open>The zero rows a failed lookup returns with its error.\<close>

definition zeroLoginRow :: LoginUserWithUsernameRow where
  "zeroLoginRow =
     \<lparr>LoginUserWithUsernameRow.Username = [], LoginUserWithUsernameRow.Passwdhash = []\<rparr>"

definition zeroUserDataRow :: GetUserDataRow where
  "zeroUserDataRow =
     \<lparr>GetUserDataRow.Username = [], GetUserDataRow.Email = [], GetUserDataRow.Name = [],
      GetUserDataRow.Surname = [], GetUserDataRow.PhoneNumber = [], GetUserDataRow.Age = 0,
      GetUserDataRow.Sex = [], GetUserDataRow.Weight = 0, GetUserDataRow.Height = 0,
      GetUserDataRow.Bmi = 0\<rparr>"

text \<open>
  Modelled from the spec: the lookup of a user by the login identifier; it fails when no
  row has this username.
\<close>

definition Store_LoginUserWithUsername ::
  "string \<Rightarrow> Store \<Rightarrow> (LoginUserWithUsernameRow \<times> error option) \<times> Store" where
  "Store_LoginUserWithUsername login s =
     (if online s then
        (case find_user login s of
           None \<Rightarrow> ((zeroLoginRow, Some ErrNoRows), s)
         | Some u \<Rightarrow>
            ((\<lparr>LoginUserWithUsernameRow.Username = UserRow.Username u,
               LoginUserWithUsernameRow.Passwdhash = UserRow.Passwdhash u\<rparr>, None), s))
      else ((zeroLoginRow, Some ErrConnClosed), s))"

text \<open>
  Modelled from the spec: the insert of a new user; it fails when the username is taken.
  The fields a registration does not give are left at their zero values.
\<close>

definition Store_CreateUser :: "CreateUserParams \<Rightarrow> Store \<Rightarrow> error option \<times> Store" where
  "Store_CreateUser p s =
     (if online s then
        (case find_user (CreateUserParams.Username p) s of
           Some _ \<Rightarrow> (Some ErrUniqueViolation, s)
         | None \<Rightarrow>
            (None,
             s\<lparr>users := users s @
                  [\<lparr>UserRow.Username = CreateUserParams.Username p,
                    UserRow.Passwdhash = CreateUserParams.Passwdhash p,
                    UserRow.Email = CreateUserParams.Email p,
                    UserRow.Name = [],
                    UserRow.Surname = [],
                    UserRow.PhoneNumber = CreateUserParams.PhoneNumber p,
                    UserRow.Age = CreateUserParams.Age p,
                    UserRow.Sex = CreateUserParams.Sex p,
                    UserRow.Weight = 0,
                    UserRow.Height = 0,
                    UserRow.Bmi = 0\<rparr>]\<rparr>))
      else (Some ErrConnClosed, s))"

text \<open>
  Modelled from the spec: the single lookup of a profile record.
\<close>

definition Store_GetUserData ::
  "string \<Rightarrow> Store \<Rightarrow> (GetUserDataRow \<times> error option) \<times> Store" where
  "Store_GetUserData username s =
     (if online s then
        (case find_user username s of
           None \<Rightarrow> ((zeroUserDataRow, Some ErrNoRows), s)
         | Some u \<Rightarrow>
            ((\<lparr>GetUserDataRow.Username = UserRow.Username u,
               GetUserDataRow.Email = UserRow.Email u,
               GetUserDataRow.Name = UserRow.Name u,
               GetUserDataRow.Surname = UserRow.Surname u,
               GetUserDataRow.PhoneNumber = UserRow.PhoneNumber u,
               GetUserDataRow.Age = UserRow.Age u,
               GetUserDataRow.Sex = UserRow.Sex u,
               GetUserDataRow.Weight = UserRow.Weight u,
               GetUserDataRow.Height = UserRow.Height u,
               GetUserDataRow.Bmi = UserRow.Bmi u\<rparr>, None), s))
      else ((zeroUserDataRow, Some ErrConnClosed), s))"

text \<open>
  Modelled from the spec: the settings update overwrites the profile fields of the row of
  this username.
\<close>

definition overwrite_profile :: "UpdateUserSettingsParams \<Rightarrow> UserRow \<Rightarrow> UserRow" where
  "overwrite_profile p u =
     (if UserRow.Username u = UpdateUserSettingsParams.Username p then
        u\<lparr>UserRow.Email := UpdateUserSettingsParams.Email p,
          UserRow.Name := UpdateUserSettingsParams.Name p,
          UserRow.Surname := UpdateUserSettingsParams.Surname p,
          UserRow.PhoneNumber := UpdateUserSettingsParams.PhoneNumber p,
          UserRow.Age := UpdateUserSettingsParams.Age p,
          UserRow.Sex := UpdateUserSettingsParams.Sex p,
          UserRow.Weight := UpdateUserSettingsParams.Weight p,
          UserRow.Height := UpdateUserSettingsParams.Height p,
          UserRow.Bmi := UpdateUserSettingsParams.Bmi p\<rparr>
      else u)"

definition Store_UpdateUserSettings ::
  "UpdateUserSettingsParams \<Rightarrow> Store \<Rightarrow> error option \<times> Store" where
  "Store_UpdateUserSettings p s =
     (if online s then (None, s\<lparr>users := map (overwrite_profile p) (users s)\<rparr>)
      else (Some ErrConnClosed, s))"

text \<open>
  Modelled from the spec: the insert of one tag row; it fails when the user already has a
  tag of this name.
\<close>

definition Store_InsertUserTag :: "InsertUserTagParams \<Rightarrow> Store \<Rightarrow> error option \<times> Store" where
  "Store_InsertUserTag p s =
     (if online s then
        (case find_tag (InsertUserTagParams.Username p) (InsertUserTagParams.TagName p) s of
           Some _ \<Rightarrow> (Some ErrUniqueViolation, s)
         | None \<Rightarrow>
            (None,
             s\<lparr>user_tags := user_tags s @
                  [\<lparr>TagRow.Username = InsertUserTagParams.Username p,
                    TagRow.TagName = InsertUserTagParams.TagName p,
                    TagRow.TagTypeName = InsertUserTagParams.TagTypeName p\<rparr>]\<rparr>))
      else (Some ErrConnClosed, s))"

text \<open>
  Modelled from the spec: the delete of one tag row by its composite key (username, tag
  name).
\<close>

definition keeps_tag :: "DeleteUserTagParams \<Rightarrow> TagRow \<Rightarrow> bool" where
  "keeps_tag p t =
     (\<not> (TagRow.Username t = DeleteUserTagParams.Username p
         \<and> TagRow.TagName t = DeleteUserTagParams.TagName p))"

definition Store_DeleteUserTag :: "DeleteUserTagParams \<Rightarrow> Store \<Rightarrow> error option \<times> Store" where
  "Store_DeleteUserTag p s =
     (if online s then (None, s\<lparr>user_tags := filter (keeps_tag p) (user_tags s)\<rparr>)
      else (Some ErrConnClosed, s))"

text \<open>
  Modelled from the spec: the tags of a user, in the order of the table, as (tag name, tag
  type) pairs.
\<close>

definition tag_row :: "TagRow \<Rightarrow> DisplayUserTagRow" where
  "tag_row t =
     \<lparr>DisplayUserTagRow.TagName = TagRow.TagName t,
      DisplayUserTagRow.TagTypeName = TagRow.TagTypeName t\<rparr>"

definition Store_DisplayUserTag ::
  "string \<Rightarrow> Store \<Rightarrow> (DisplayUserTagRow list \<times> error option) \<times> Store" where
  "Store_DisplayUserTag username s =
     (if online s then
        ((map tag_row (filter (\<lambda>t. TagRow.Username t = username) (user_tags s)), None), s)
      else (([], Some ErrConnClosed), s))"

definition StoreQueries :: "Store Queries" where
  "StoreQueries =
     \<lparr>LoginUserWithUsername = Store_LoginUserWithUsername,
      CreateUser = Store_CreateUser,
      GetUserData = Store_GetUserData,
      UpdateUserSettings = Store_UpdateUserSettings,
      InsertUserTag = Store_InsertUserTag,
      DeleteUserTag = Store_DeleteUserTag,
      DisplayUserTag = Store_DisplayUserTag\<rparr>"

subsection \<open>A process to run the service in\<close>

text \<open>
  A process state with a clock that advances by \<open>tick\<close> nanoseconds at each reading and a
  log, and stand-ins for the libraries, to run the service on concrete inputs:
  validation asks for a non-empty username and password, the stand-in for bcrypt refuses
  more than 72 bytes and otherwise tags the password, the stand-in for jwt refuses an
  empty key. The theorems about the service do not depend on them.
\<close>

record Env =
  clock :: Time
  tick :: Duration
  log :: "logarg list list"

definition Env_Now :: "Env \<Rightarrow> Time \<times> Env" where
  "Env_Now e = (clock e, e\<lparr>clock := clock e + tick e\<rparr>)"

definition Env_Println :: "logarg list \<Rightarrow> Env \<Rightarrow> Env" where
  "Env_Println args e = e\<lparr>log := log e @ [args]\<rparr>"

definition stub_Validate :: "CreateUserRequest \<Rightarrow> error option" where
  "stub_Validate req =
     (if CreateUserRequest.Username req = [] \<or> CreateUserRequest.Passwdhash req = []
      then Some (OtherError ''validation failed'') else None)"

definition stub_GenerateFromPassword ::
  "string \<Rightarrow> int \<Rightarrow> Env \<Rightarrow> (string \<times> error option) \<times> Env" where
  "stub_GenerateFromPassword p cost e =
     (if 72 < length p then (([], Some (OtherError ''password length exceeds 72 bytes'')), e)
      else ((''$stub$'' @ p, None), e))"

definition stub_CompareHashAndPassword :: "string \<Rightarrow> string \<Rightarrow> error option" where
  "stub_CompareHashAndPassword h p =
     (if h = ''$stub$'' @ p then None
      else Some (OtherError ''hashedPassword is not the hash of the given password''))"

definition stub_subject :: "Token \<Rightarrow> string" where
  "stub_subject t = (case Claims t ''sub'' of Some (StrV s) \<Rightarrow> s | _ \<Rightarrow> [])"

definition stub_SignedString :: "Token \<Rightarrow> string \<Rightarrow> string \<times> error option" where
  "stub_SignedString t k =
     (if k = [] then ([], Some (OtherError ''key is invalid''))
      else (''jwt.'' @ stub_subject t, None))"

definition stub_libs :: "string \<Rightarrow> Env Libs" where
  "stub_libs k =
     \<lparr>Validate = stub_Validate,
      GenerateFromPassword = stub_GenerateFromPassword,
      CompareHashAndPassword = stub_CompareHashAndPassword,
      SignedString = stub_SignedString,
      Now = Env_Now,
      Println = Env_Println,
      key = k\<rparr>"

subsection \<open>bcrypt\<close>

text \<open>
  Modelled from the documentation of bcrypt (golang.org/x/crypto/bcrypt, a library outside
  the repository). \<open>GenerateFromPassword\<close> does not accept a password longer than 72 bytes,
  the longest password bcrypt will operate on; a cost below \<open>MinCost\<close> is set to
  \<open>DefaultCost\<close> and a cost above \<open>MaxCost\<close> is an error; it draws a random salt and
  returns the hash of the password at this cost and salt. The hash carries its cost and
  its salt. \<open>CompareHashAndPassword\<close> reads the cost and the salt back from the hash, hashes
  the password it is given with them and returns \<open>nil\<close> when the two hashes are equal; it
  puts no bound on the length of the password it is given. The key schedule reads the
  password followed by a NUL byte, and no more than 72 bytes of it: \<open>bcrypt_key\<close>. The rest
  is a parameter: where the salt comes from (\<open>read_salt\<close>), the cipher and the encoding
  of the hash (\<open>hash_with\<close>, from the cost, the salt and the key to the hash), and the
  parsing of a hash (\<open>cost_and_salt\<close>).
\<close>

definition MinCost :: int where
  "MinCost = 4"

definition MaxCost :: int where
  "MaxCost = 31"

definition ErrPasswordTooLong :: error where
  "ErrPasswordTooLong = OtherError ''bcrypt: password length exceeds 72 bytes''"

definition ErrMismatchedHashAndPassword :: error where
  "ErrMismatchedHashAndPassword =
     OtherError ''crypto/bcrypt: hashedPassword is not the hash of the given password''"

definition InvalidCostError :: "int \<Rightarrow> error" where
  "InvalidCostError cost = OtherError ''crypto/bcrypt: cost is outside allowed range''"

record 'e Bcrypt =
  read_salt :: "'e \<Rightarrow> (string \<times> error option) \<times> 'e"
  hash_with :: "int \<Rightarrow> string \<Rightarrow> string \<Rightarrow> string"
  cost_and_salt :: "string \<Rightarrow> error + int \<times> string"

definition bcrypt_key :: "string \<Rightarrow> string" where
  "bcrypt_key password = take 72 (password @ [CHR 0x00])"

definition bcrypt_GenerateFromPassword ::
  "'e Bcrypt \<Rightarrow> string \<Rightarrow> int \<Rightarrow> 'e \<Rightarrow> (string \<times> error option) \<times> 'e" where
  "bcrypt_GenerateFromPassword B password cost e =
     (if 72 < length password then (([], Some ErrPasswordTooLong), e)
      else
        (let c = (if cost < MinCost then DefaultCost else cost) in
         if c < MinCost \<or> MaxCost < c then (([], Some (InvalidCostError c)), e)
         else
           (case read_salt B e of ((salt, err), e') \<Rightarrow>
              (case err of
                 Some er \<Rightarrow> (([], Some er), e')
               | None \<Rightarrow> ((hash_with B c salt (bcrypt_key password), None), e')))))"

definition bcrypt_CompareHashAndPassword :: "'e Bcrypt \<Rightarrow> string \<Rightarrow> string \<Rightarrow> error option" where
  "bcrypt_CompareHashAndPassword B hashedPassword password =
     (case cost_and_salt B hashedPassword of
        Inl er \<Rightarrow> Some er
      | Inr (c, salt) \<Rightarrow>
         (if hash_with B c salt (bcrypt_key password) = hashedPassword then None
          else Some ErrMismatchedHashAndPassword))"

text \<open>
  \<open>with_bcrypt B L\<close> is \<open>L\<close> with this bcrypt in the place of its own. The stand-in
  \<open>stub_bcrypt\<close>, with a fixed salt and a hash that keeps the key, runs it on concrete
  inputs.
\<close>

definition with_bcrypt :: "'e Bcrypt \<Rightarrow> 'e Libs \<Rightarrow> 'e Libs" where
  "with_bcrypt B L =
     L\<lparr>GenerateFromPassword := bcrypt_GenerateFromPassword B,
       CompareHashAndPassword := bcrypt_CompareHashAndPassword B\<rparr>"

definition stub_read_salt :: "Env \<Rightarrow> (string \<times> error option) \<times> Env" where
  "stub_read_salt e = ((''salt'', None), e)"

definition stub_hash_with :: "int \<Rightarrow> string \<Rightarrow> string \<Rightarrow> string" where
  "stub_hash_with c salt k = salt @ ''$'' @ k"

definition stub_cost_and_salt :: "string \<Rightarrow> error + int \<times> string" where
  "stub_cost_and_salt h = Inr (DefaultCost, takeWhile (\<lambda>c. c \<noteq> CHR ''$'') h)"

definition stub_bcrypt :: "Env Bcrypt" where
  "stub_bcrypt =
     \<lparr>read_salt = stub_read_salt, hash_with = stub_hash_with,
      cost_and_salt = stub_cost_and_salt\<rparr>"

subsection \<open>What the theorems ask of the libraries\<close>

text \<open>
  bcrypt verifies a password against the hash it made of it, and signing with the
  process's key returns no error.
\<close>

definition bcrypt_verifies_own_hash :: "'e Libs \<Rightarrow> bool" where
  "bcrypt_verifies_own_hash L \<longleftrightarrow>
     (\<forall>p c e h e'. GenerateFromPassword L p c e = ((h, None), e')
        \<longrightarrow> CompareHashAndPassword L h p = None)"

definition signing_succeeds :: "'e Libs \<Rightarrow> bool" where
  "signing_succeeds L \<longleftrightarrow> (\<forall>t. snd (SignedString L t (key L)) = None)"

subsection \<open>Example data\<close>

definition empty_store :: Store where
  "empty_store = \<lparr>online = True, users = [], user_tags = []\<rparr>"

definition closed_store :: Store where
  "closed_store = \<lparr>online = False, users = [], user_tags = []\<rparr>"

definition alice_row :: UserRow where
  "alice_row =
     \<lparr>UserRow.Username = ''alice'', UserRow.Passwdhash = ''$stub$pw1'',
      UserRow.Email = ''a@x.org'', UserRow.Name = [], UserRow.Surname = [],
      UserRow.PhoneNumber = ''555'', UserRow.Age = 30, UserRow.Sex = ''f'',
      UserRow.Weight = 0, UserRow.Height = 0, UserRow.Bmi = 0\<rparr>"

definition alice_store :: Store where
  "alice_store = \<lparr>online = True, users = [alice_row], user_tags = []\<rparr>"

definition alice_req :: CreateUserRequest where
  "alice_req =
     \<lparr>CreateUserRequest.Username = ''alice'', CreateUserRequest.Passwdhash = ''pw1'',
      CreateUserRequest.Email = ''a@x.org'', CreateUserRequest.PhoneNumber = ''555'',
      CreateUserRequest.Age = 30, CreateUserRequest.Sex = ''f''\<rparr>"

definition alice_settings :: UpdateUserSettingsRequest where
  "alice_settings =
     \<lparr>UpdateUserSettingsRequest.Email = ''alice@x.org'', UpdateUserSettingsRequest.Name = ''Alice'',
      UpdateUserSettingsRequest.Surname = ''A'', UpdateUserSettingsRequest.PhoneNumber = ''556'',
      UpdateUserSettingsRequest.Age = 31, UpdateUserSettingsRequest.Sex = ''f'',
      UpdateUserSettingsRequest.Weight = 60, UpdateUserSettingsRequest.Height = 170,
      UpdateUserSettingsRequest.Bmi = 21\<rparr>"

definition env0 :: Env where
  "env0 = \<lparr>clock = 0, tick = 1, log = []\<rparr>"

definition vegan :: UserTag where
  "vegan = \<lparr>UserTag.Name = ''vegan'', TagType = ''diet''\<rparr>"

definition vegan_row :: TagRow where
  "vegan_row = \<lparr>TagRow.Username = ''alice'', TagRow.TagName = ''vegan'',
                 TagRow.TagTypeName = ''diet''\<rparr>"

definition long_password :: string where
  "long_password = replicate 72 CHR ''a''"

definition long_req :: CreateUserRequest where
  "long_req = alice_req\<lparr>CreateUserRequest.Passwdhash := long_password\<rparr>"

definition long_store :: Store where
  "long_store =
     \<lparr>online = True,
      users = [alice_row\<lparr>UserRow.Passwdhash := ''salt$'' @ long_password\<rparr>],
      user_tags = []\<rparr>"

section \<open>Properties\<close>

lemmas store_defs = StoreQueries_def Store_LoginUserWithUsername_def Store_CreateUser_def
  Store_GetUserData_def Store_UpdateUserSettings_def Store_InsertUserTag_def
  Store_DeleteUserTag_def Store_DisplayUserTag_def find_user_def find_tag_def
  keeps_tag_def tag_row_def overwrite_profile_def

lemmas stub_defs = stub_libs_def stub_Validate_def stub_GenerateFromPassword_def
  stub_CompareHashAndPassword_def stub_SignedString_def stub_subject_def Env_Now_def
  Env_Println_def

lemmas example_defs = empty_store_def closed_store_def alice_row_def alice_store_def
  alice_req_def env0_def alice_settings_def
  vegan_def vegan_row_def

subsection \<open>The stand-ins meet what is asked of the libraries\<close>

lemma stub_signing_succeeds: "k \<noteq> [] \<Longrightarrow> signing_succeeds (stub_libs k)"
  by (simp add: signing_succeeds_def stub_defs)

lemma stub_bcrypt_verifies_own_hash: "bcrypt_verifies_own_hash (stub_libs k)"
  by (simp add: bcrypt_verifies_own_hash_def stub_defs)

subsection \<open>Error kinds and results\<close>

text \<open>
  C4. \<open>CreateUser\<close> returns \<open>ErrInternalFailure\<close> when the validation of the request fails,
  when hashing the password fails, and when the insert into the store fails, whatever the
  store's error is (a uniqueness violation included); it returns \<open>nil\<close> when all three
  succeed; it returns no other error.
\<close>

theorem CreateUser_error_kinds:
  fixes R :: "'db Queries" and L :: "'e Libs"
  assumes "GenerateFromPassword L (CreateUserRequest.Passwdhash req) DefaultCost e = ((hashedPasswd, herr), e')"
    and "CreateUser R
          \<lparr>CreateUserParams.Username = CreateUserRequest.Username req,
           CreateUserParams.Passwdhash = hashedPasswd,
           CreateUserParams.Email = CreateUserRequest.Email req,
           CreateUserParams.PhoneNumber = CreateUserRequest.PhoneNumber req,
           CreateUserParams.Age = CreateUserRequest.Age req,
           CreateUserParams.Sex = CreateUserRequest.Sex req\<rparr> d = (serr, d')"
  shows "(Validate L req \<noteq> None \<longrightarrow>
            fst (BaseUserService_CreateUser R L req (d, e)) = Some ErrInternalFailure)
       \<and> (Validate L req = None \<and> herr \<noteq> None \<longrightarrow>
            fst (BaseUserService_CreateUser R L req (d, e)) = Some ErrInternalFailure)
       \<and> (Validate L req = None \<and> herr = None \<and> serr \<noteq> None \<longrightarrow>
            fst (BaseUserService_CreateUser R L req (d, e)) = Some ErrInternalFailure)
       \<and> (Validate L req = None \<and> herr = None \<and> serr = None \<longrightarrow>
            fst (BaseUserService_CreateUser R L req (d, e)) = None)
       \<and> (fst (BaseUserService_CreateUser R L req (d, e)) = None
            \<or> fst (BaseUserService_CreateUser R L req (d, e)) = Some ErrInternalFailure)"
  using assms by (auto simp: BaseUserService_CreateUser_def split: option.splits)


theorem CreateUser_error_kinds_witness:
  "fst (BaseUserService_CreateUser StoreQueries (stub_libs ''secret'')
          (alice_req\<lparr>CreateUserRequest.Username := []\<rparr>) (empty_store, env0))
     = Some ErrInternalFailure
   \<and> fst (BaseUserService_CreateUser StoreQueries (stub_libs ''secret'')
          (alice_req\<lparr>CreateUserRequest.Passwdhash := replicate 73 CHR ''a''\<rparr>) (empty_store, env0))
     = Some ErrInternalFailure
   \<and> fst (BaseUserService_CreateUser StoreQueries (stub_libs ''secret'') alice_req
          (alice_store, env0))
     = Some ErrInternalFailure
   \<and> fst (BaseUserService_CreateUser StoreQueries (stub_libs ''secret'') alice_req
          (empty_store, env0))
     = None"
proof -
  let ?L = "stub_libs ''secret''"
  let ?long = "alice_req\<lparr>CreateUserRequest.Passwdhash := replicate 73 CHR ''a''\<rparr>"
  let ?anon = "alice_req\<lparr>CreateUserRequest.Username := []\<rparr>"
  have h: "GenerateFromPassword ?L (CreateUserRequest.Passwdhash alice_req) DefaultCost env0
             = ((''$stub$pw1'', None), env0)"
    by (simp add: stub_defs example_defs)
  have hl: "GenerateFromPassword ?L (CreateUserRequest.Passwdhash ?long) DefaultCost env0
             = (([], Some (OtherError ''password length exceeds 72 bytes'')), env0)"
    by (simp add: stub_defs example_defs)
  have ha: "GenerateFromPassword ?L (CreateUserRequest.Passwdhash ?anon) DefaultCost env0
             = ((''$stub$pw1'', None), env0)"
    by (simp add: stub_defs example_defs)
  note a = CreateUser_error_kinds [OF ha, where R = StoreQueries and d = empty_store, OF surjective_pairing]
  note b = CreateUser_error_kinds [OF hl, where R = StoreQueries and d = empty_store, OF surjective_pairing]
  note c = CreateUser_error_kinds [OF h, where R = StoreQueries and d = alice_store, OF surjective_pairing]
  note d = CreateUser_error_kinds [OF h, where R = StoreQueries and d = empty_store, OF surjective_pairing]
  have 1: "Validate ?L ?anon \<noteq> None"
    by (simp add: stub_defs example_defs)
  have 2: "Validate ?L ?long = None" "Validate ?L alice_req = None"
    by (simp_all add: stub_defs example_defs)
  have 3: "fst (CreateUser StoreQueries
          \<lparr>CreateUserParams.Username = CreateUserRequest.Username alice_req,
           CreateUserParams.Passwdhash = ''$stub$pw1'',
           CreateUserParams.Email = CreateUserRequest.Email alice_req,
           CreateUserParams.PhoneNumber = CreateUserRequest.PhoneNumber alice_req,
           CreateUserParams.Age = CreateUserRequest.Age alice_req,
           CreateUserParams.Sex = CreateUserRequest.Sex alice_req\<rparr> alice_store) \<noteq> None"
    by (simp add: store_defs example_defs)
  have 4: "fst (CreateUser StoreQueries
          \<lparr>CreateUserParams.Username = CreateUserRequest.Username alice_req,
           CreateUserParams.Passwdhash = ''$stub$pw1'',
           CreateUserParams.Email = CreateUserRequest.Email alice_req,
           CreateUserParams.PhoneNumber = CreateUserRequest.PhoneNumber alice_req,
           CreateUserParams.Age = CreateUserRequest.Age alice_req,
           CreateUserParams.Sex = CreateUserRequest.Sex alice_req\<rparr> empty_store) = None"
    by (simp add: store_defs example_defs)
  show ?thesis
    using a b c d 1 2 3 4 by simp
qed

text \<open>
  C8. \<open>UpdateUserSettings\<close> returns \<open>ErrInternalFailure\<close> whenever the store's update fails
  and \<open>nil\<close> otherwise; it returns no other error.
\<close>

theorem UpdateUserSettings_error_kinds:
  fixes R :: "'db Queries" and L :: "'e Libs"
  assumes "UpdateUserSettings R
             \<lparr>UpdateUserSettingsParams.Username = username,
              UpdateUserSettingsParams.Email = UpdateUserSettingsRequest.Email req,
              UpdateUserSettingsParams.Name = UpdateUserSettingsRequest.Name req,
              UpdateUserSettingsParams.Surname = UpdateUserSettingsRequest.Surname req,
              UpdateUserSettingsParams.PhoneNumber = UpdateUserSettingsRequest.PhoneNumber req,
              UpdateUserSettingsParams.Age = UpdateUserSettingsRequest.Age req,
              UpdateUserSettingsParams.Sex = UpdateUserSettingsRequest.Sex req,
              UpdateUserSettingsParams.Weight = UpdateUserSettingsRequest.Weight req,
              UpdateUserSettingsParams.Height = UpdateUserSettingsRequest.Height req,
              UpdateUserSettingsParams.Bmi = UpdateUserSettingsRequest.Bmi req\<rparr> d = (serr, d')"
  shows "(serr \<noteq> None \<longrightarrow>
            fst (BaseUserService_UpdateUserSettings R L req username (d, e))
              = Some ErrInternalFailure)
       \<and> (serr = None \<longrightarrow>
            fst (BaseUserService_UpdateUserSettings R L req username (d, e)) = None)
       \<and> (fst (BaseUserService_UpdateUserSettings R L req username (d, e)) = None
            \<or> fst (BaseUserService_UpdateUserSettings R L req username (d, e))
                 = Some ErrInternalFailure)"
  using assms by (auto simp: BaseUserService_UpdateUserSettings_def split: option.splits)

theorem UpdateUserSettings_error_kinds_witness:
  "fst (BaseUserService_UpdateUserSettings StoreQueries (stub_libs ''secret'') alice_settings
          ''alice'' (closed_store, env0)) = Some ErrInternalFailure
   \<and> fst (BaseUserService_UpdateUserSettings StoreQueries (stub_libs ''secret'') alice_settings
          ''alice'' (alice_store, env0)) = None"
proof -
  note a = UpdateUserSettings_error_kinds
             [where R = StoreQueries and username = "''alice''" and req = alice_settings
                and d = closed_store and L = "stub_libs ''secret''" and e = env0,
              OF surjective_pairing]
  note b = UpdateUserSettings_error_kinds
             [where R = StoreQueries and username = "''alice''" and req = alice_settings
                and d = alice_store and L = "stub_libs ''secret''" and e = env0,
              OF surjective_pairing]
  have 1: "fst (UpdateUserSettings StoreQueries p closed_store) \<noteq> None" for p
    by (simp add: store_defs example_defs ErrConnClosed_def)
  have 2: "fst (UpdateUserSettings StoreQueries p alice_store) = None" for p
    by (simp add: store_defs example_defs)
  show ?thesis
    using a b 1 2 by simp
qed


text \<open>
  C7. When the store call fails, \<open>GetUser\<close>, \<open>AddUserTag\<close>, \<open>DeleteUserTag\<close> and
  \<open>DisplayUserTag\<close> each return the store's error as it is; \<open>GetUser\<close> also returns the
  row the store gave with it.
\<close>

theorem store_errors_pass_through:
  fixes R :: "'db Queries" and L :: "'e Libs"
  shows "(GetUserData R username d = ((data, Some er), d') \<longrightarrow>
            fst (BaseUserService_GetUser R L username (d, e)) = (data, Some er))
       \<and> (InsertUserTag R
             \<lparr>InsertUserTagParams.Username = username,
              InsertUserTagParams.TagName = UserTag.Name userTag,
              InsertUserTagParams.TagTypeName = TagType userTag\<rparr> d = (Some er, d') \<longrightarrow>
            fst (BaseUserService_AddUserTag R L username userTag (d, e)) = Some er)
       \<and> (DeleteUserTag R
             \<lparr>DeleteUserTagParams.Username = username,
              DeleteUserTagParams.TagName = tagName\<rparr> d = (Some er, d') \<longrightarrow>
            fst (BaseUserService_DeleteUserTag R L username tagName (d, e)) = Some er)
       \<and> (DisplayUserTag R username d = ((rows, Some er), d') \<longrightarrow>
            snd (fst (BaseUserService_DisplayUserTag R L username (d, e))) = Some er)"
  by (simp add: BaseUserService_GetUser_def BaseUserService_AddUserTag_def
        BaseUserService_DeleteUserTag_def BaseUserService_DisplayUserTag_def)

theorem store_errors_pass_through_witness:
  "fst (BaseUserService_GetUser StoreQueries (stub_libs ''secret'') ''bob'' (alice_store, env0))
     = (zeroUserDataRow, Some ErrNoRows)
   \<and> fst (BaseUserService_AddUserTag StoreQueries (stub_libs ''secret'') ''alice''
            \<lparr>UserTag.Name = ''vegan'', TagType = ''diet''\<rparr> (closed_store, env0))
     = Some ErrConnClosed
   \<and> fst (BaseUserService_DeleteUserTag StoreQueries (stub_libs ''secret'') ''alice'' ''vegan''
            (closed_store, env0))
     = Some ErrConnClosed
   \<and> snd (fst (BaseUserService_DisplayUserTag StoreQueries (stub_libs ''secret'') ''alice''
            (closed_store, env0)))
     = Some ErrConnClosed"
proof -
  let ?L = "stub_libs ''secret''"
  have g: "GetUserData StoreQueries ''bob'' alice_store
             = ((zeroUserDataRow, Some ErrNoRows), alice_store)"
    by (simp add: store_defs example_defs)
  have i: "InsertUserTag StoreQueries
             \<lparr>InsertUserTagParams.Username = ''alice'',
              InsertUserTagParams.TagName = UserTag.Name \<lparr>UserTag.Name = ''vegan'', TagType = ''diet''\<rparr>,
              InsertUserTagParams.TagTypeName = TagType \<lparr>UserTag.Name = ''vegan'', TagType = ''diet''\<rparr>\<rparr>
             closed_store = (Some ErrConnClosed, closed_store)"
    by (simp add: store_defs example_defs)
  have x: "DeleteUserTag StoreQueries
             \<lparr>DeleteUserTagParams.Username = ''alice'',
              DeleteUserTagParams.TagName = ''vegan''\<rparr> closed_store
             = (Some ErrConnClosed, closed_store)"
    by (simp add: store_defs example_defs)
  have l: "DisplayUserTag StoreQueries ''alice'' closed_store
             = (([], Some ErrConnClosed), closed_store)"
    by (simp add: store_defs example_defs)
  show ?thesis
    using g i x l
      store_errors_pass_through
        [where R = StoreQueries and L = ?L and e = env0 and username = "''bob''"
           and d = alice_store and data = zeroUserDataRow and er = ErrNoRows and d' = alice_store]
      store_errors_pass_through
        [where R = StoreQueries and L = ?L and e = env0 and username = "''alice''"
           and d = closed_store and er = ErrConnClosed and d' = closed_store
           and userTag = "\<lparr>UserTag.Name = ''vegan'', TagType = ''diet''\<rparr>"
           and tagName = "''vegan''" and rows = "[]"]
    by simp
qed

text \<open>
  C2. \<open>LoginUser\<close> returns the empty token and \<open>ErrUnauthorizedUser\<close> when the lookup of
  the user fails and when the password does not verify against the stored hash, the same
  result in both cases; it returns the empty token and \<open>ErrInternalFailure\<close> when signing
  the token fails; in the one remaining case it returns the signed token and no error.
\<close>

theorem LoginUser_error_kinds:
  fixes R :: "'db Queries" and L :: "'e Libs"
  assumes "LoginUserWithUsername R (Login loginData) d = ((user, lerr), d')"
    and "generateJWT L (LoginUserWithUsernameRow.Username user) e = ((token, jerr), e')"
  shows "(lerr \<noteq> None \<longrightarrow>
            fst (BaseUserService_LoginUser R L loginData (d, e)) = ([], Some ErrUnauthorizedUser))
       \<and> (lerr = None
          \<and> CompareHashAndPassword L (LoginUserWithUsernameRow.Passwdhash user)
                (Password loginData) \<noteq> None \<longrightarrow>
            fst (BaseUserService_LoginUser R L loginData (d, e)) = ([], Some ErrUnauthorizedUser))
       \<and> (lerr = None
          \<and> CompareHashAndPassword L (LoginUserWithUsernameRow.Passwdhash user)
                (Password loginData) = None
          \<and> jerr \<noteq> None \<longrightarrow>
            fst (BaseUserService_LoginUser R L loginData (d, e)) = ([], Some ErrInternalFailure))
       \<and> (lerr = None
          \<and> CompareHashAndPassword L (LoginUserWithUsernameRow.Passwdhash user)
                (Password loginData) = None
          \<and> jerr = None \<longrightarrow>
            fst (BaseUserService_LoginUser R L loginData (d, e)) = (token, None))
       \<and> (fst (BaseUserService_LoginUser R L loginData (d, e)) = (token, None)
          \<or> fst (BaseUserService_LoginUser R L loginData (d, e)) = ([], Some ErrUnauthorizedUser)
          \<or> fst (BaseUserService_LoginUser R L loginData (d, e)) = ([], Some ErrInternalFailure))"
  using assms by (auto simp: BaseUserService_LoginUser_def split: option.splits)


theorem LoginUser_error_kinds_witness:
  "fst (BaseUserService_LoginUser StoreQueries (stub_libs ''secret'')
          \<lparr>Login = ''bob'', Password = ''pw1''\<rparr> (alice_store, env0))
     = ([], Some ErrUnauthorizedUser)
   \<and> fst (BaseUserService_LoginUser StoreQueries (stub_libs ''secret'')
          \<lparr>Login = ''alice'', Password = ''wrong''\<rparr> (alice_store, env0))
     = ([], Some ErrUnauthorizedUser)
   \<and> fst (BaseUserService_LoginUser StoreQueries (stub_libs [])
          \<lparr>Login = ''alice'', Password = ''pw1''\<rparr> (alice_store, env0))
     = ([], Some ErrInternalFailure)
   \<and> fst (BaseUserService_LoginUser StoreQueries (stub_libs ''secret'')
          \<lparr>Login = ''alice'', Password = ''pw1''\<rparr> (alice_store, env0))
     = (''jwt.alice'', None)"
proof -
  let ?L = "stub_libs ''secret''"
  let ?alice = "\<lparr>LoginUserWithUsernameRow.Username = ''alice'',
                  LoginUserWithUsernameRow.Passwdhash = ''$stub$pw1''\<rparr>"
  have nobody: "LoginUserWithUsername StoreQueries (Login \<lparr>Login = ''bob'', Password = ''pw1''\<rparr>)
                  alice_store = ((zeroLoginRow, Some ErrNoRows), alice_store)"
    by (simp add: store_defs example_defs)
  have found: "LoginUserWithUsername StoreQueries (Login \<lparr>Login = ''alice'', Password = pw\<rparr>)
                 alice_store = ((?alice, None), alice_store)" for pw
    by (simp add: store_defs example_defs)
  have signed: "generateJWT ?L (LoginUserWithUsernameRow.Username ?alice) env0
                  = ((''jwt.alice'', None), env0\<lparr>clock := 2\<rparr>)"
    by (simp add: generateJWT_def stub_defs example_defs NewWithClaims_def)
  have unsigned: "generateJWT (stub_libs []) (LoginUserWithUsernameRow.Username ?alice) env0
                    = (([], Some (OtherError ''key is invalid'')), env0\<lparr>clock := 2\<rparr>)"
    by (simp add: generateJWT_def stub_defs example_defs NewWithClaims_def)
  have nosign: "generateJWT ?L (LoginUserWithUsernameRow.Username zeroLoginRow) env0
                  = ((''jwt.'', None), env0\<lparr>clock := 2\<rparr>)"
    by (simp add: generateJWT_def stub_defs example_defs NewWithClaims_def zeroLoginRow_def)
  have cmp: "CompareHashAndPassword (stub_libs k) ''$stub$pw1'' ''wrong'' \<noteq> None"
            "CompareHashAndPassword (stub_libs k) ''$stub$pw1'' ''pw1'' = None" for k
    by (simp_all add: stub_defs)
  show ?thesis
    using cmp LoginUser_error_kinds [OF nobody nosign] LoginUser_error_kinds [OF found signed]
      LoginUser_error_kinds [OF found unsigned]
    by simp
qed

text \<open>
  C10. When the store's tag query fails, \<open>DisplayUserTag\<close> returns the \<open>nil\<close> list with the
  error, whatever rows the query returned with it; and whenever \<open>LoginUser\<close> returns an
  error, the token it returns is the empty string.
\<close>

theorem failures_return_no_data:
  fixes R :: "'db Queries" and L :: "'e Libs"
  shows "(DisplayUserTag R username d = ((rows, Some er), d') \<longrightarrow>
            fst (BaseUserService_DisplayUserTag R L username (d, e)) = ([], Some er))
       \<and> (snd (fst (BaseUserService_LoginUser R L loginData (d, e))) \<noteq> None \<longrightarrow>
            fst (fst (BaseUserService_LoginUser R L loginData (d, e))) = [])"
  by (auto simp: BaseUserService_DisplayUserTag_def BaseUserService_LoginUser_def
        split: prod.splits option.splits)

theorem failures_return_no_data_witness:
  "fst (BaseUserService_DisplayUserTag StoreQueries (stub_libs ''secret'') ''alice''
          (closed_store, env0)) = ([], Some ErrConnClosed)
   \<and> snd (fst (BaseUserService_LoginUser StoreQueries (stub_libs ''secret'')
          \<lparr>Login = ''bob'', Password = ''pw1''\<rparr> (alice_store, env0))) \<noteq> None
   \<and> fst (fst (BaseUserService_LoginUser StoreQueries (stub_libs ''secret'')
          \<lparr>Login = ''bob'', Password = ''pw1''\<rparr> (alice_store, env0))) = []"
proof -
  let ?L = "stub_libs ''secret''"
  have l: "DisplayUserTag StoreQueries ''alice'' closed_store
             = (([], Some ErrConnClosed), closed_store)"
    by (simp add: store_defs example_defs)
  have f: "snd (fst (BaseUserService_LoginUser StoreQueries ?L
             \<lparr>Login = ''bob'', Password = ''pw1''\<rparr> (alice_store, env0))) \<noteq> None"
    by (simp add: BaseUserService_LoginUser_def store_defs example_defs zeroLoginRow_def)
  show ?thesis
    using l f
      failures_return_no_data
        [where R = StoreQueries and L = ?L and e = env0 and username = "''alice''"
           and d = closed_store and er = ErrConnClosed and d' = closed_store and rows = "[]"]
      failures_return_no_data
        [where R = StoreQueries and L = ?L and e = env0 and d = alice_store
           and loginData = "\<lparr>Login = ''bob'', Password = ''pw1''\<rparr>"]
    by simp
qed

subsection \<open>The mock\<close>

text \<open>
  C9. The mock's \<open>LoginUser\<close> returns what signing a token with subject \<open>testUser\<close> under the
  process's key returns, a token and no error when signing succeeds; it takes no query
  layer and leaves the store as it is; and two calls in the same process state return the
  same result whatever the login data and the store are.
\<close>

theorem MockUserService_LoginUser_fixed_subject:
  fixes L :: "'e Libs" and d :: 'a and d' :: 'b
  shows "(\<exists>t. fst (MockUserService_LoginUser L loginData (d, e)) = SignedString L t (key L)
              \<and> Method t = HS256 \<and> Claims t ''sub'' = Some (StrV ''testUser''))
       \<and> fst (snd (MockUserService_LoginUser L loginData (d, e))) = d
       \<and> fst (MockUserService_LoginUser L loginData (d, e))
           = fst (MockUserService_LoginUser L loginData' (d', e))
       \<and> (signing_succeeds L \<longrightarrow>
            snd (fst (MockUserService_LoginUser L loginData (d, e))) = None)"
  by (auto simp: MockUserService_LoginUser_def NewWithClaims_def signing_succeeds_def
        split: prod.splits)

theorem MockUserService_LoginUser_fixed_subject_witness:
  "signing_succeeds (stub_libs ''secret'')
   \<and> MockUserService_LoginUser (stub_libs ''secret'') \<lparr>Login = ''alice'', Password = ''pw1''\<rparr>
        (alice_store, env0) = ((''jwt.testUser'', None), (alice_store, env0\<lparr>clock := 2\<rparr>))
   \<and> MockUserService_LoginUser (stub_libs ''secret'') \<lparr>Login = ''bob'', Password = []\<rparr>
        (closed_store, env0) = ((''jwt.testUser'', None), (closed_store, env0\<lparr>clock := 2\<rparr>))"
proof -
  have s: "signing_succeeds (stub_libs ''secret'')"
    by (simp add: stub_signing_succeeds)
  have a: "MockUserService_LoginUser (stub_libs ''secret'') ld (st, env0)
             = ((''jwt.testUser'', None), (st, env0\<lparr>clock := 2\<rparr>))" for ld and st :: Store
    by (simp add: MockUserService_LoginUser_def stub_defs example_defs NewWithClaims_def)
  show ?thesis
    using s a
      MockUserService_LoginUser_fixed_subject
        [where L = "stub_libs ''secret''" and e = env0 and d = alice_store and d' = closed_store
           and loginData = "\<lparr>Login = ''alice'', Password = ''pw1''\<rparr>"
           and loginData' = "\<lparr>Login = ''bob'', Password = []\<rparr>"]
    by simp
qed

subsection \<open>The claims of the token\<close>

text \<open>
  \<open>generateJWT\<close> signs, under the process's key, a token whose subject is the username,
  whose expiry is the second of the first clock reading plus 86400 and whose issued-at is
  the second of the second reading.
\<close>

lemma Unix_Add_day: "Unix (Add t (24 * Hour)) = Unix t + 86400"
proof -
  have day: "24 * Hour = 1000000000 * 86400"
    by (simp add: Hour_def)
  have "(t + 1000000000 * 86400) div 1000000000 = 86400 + t div 1000000000"
    by (rule div_mult_self2) simp
  then show ?thesis
    unfolding Unix_def Add_def day by simp
qed

lemma generateJWT_claims:
  assumes "Now L e = (t, e')" and "Now L e' = (u, e'')"
  shows "generateJWT L username e =
           (SignedString L
              (NewWithClaims HS256
                 [''sub'' \<mapsto> StrV username,
                  ''exp'' \<mapsto> IntV (Unix t + 86400),
                  ''iat'' \<mapsto> IntV (Unix u)])
              (key L), e'')"
  using assms by (simp add: generateJWT_def Unix_Add_day)

lemma generateJWT_same_second:
  assumes "Now L e = (t, e')" and "Now L e' = (u, e'')" and "Unix t = Unix u"
  shows "generateJWT L username e =
           (SignedString L
              (NewWithClaims HS256
                 [''sub'' \<mapsto> StrV username,
                  ''exp'' \<mapsto> IntV (Unix u + 86400),
                  ''iat'' \<mapsto> IntV (Unix u)])
              (key L), e'')"
  using generateJWT_claims [OF assms(1,2)] assms(3) by simp

text \<open>
  C3. The expiry of an issued token is not always its issued-at plus 24 hours: the two
  come from two readings of the clock. With the first reading at 1700000000.999999999 s
  and the second at 1700000001.000000000 s after the epoch, whatever signs the token is
  handed the subject \<open>alice\<close>, the expiry 1700086400 and the issued-at 1700000001, which
  are 86399 seconds apart, and \<open>LoginUser\<close> returns that token.
\<close>

theorem generateJWT_expiry_short_of_24h:
  "fst (generateJWT ((stub_libs ''secret'')\<lparr>SignedString := signer\<rparr>) ''alice''
          \<lparr>clock = 1700000000999999999, tick = 1, log = []\<rparr>)
     = signer (NewWithClaims HS256
                 [''sub'' \<mapsto> StrV ''alice'',
                  ''exp'' \<mapsto> IntV 1700086400,
                  ''iat'' \<mapsto> IntV 1700000001])
              ''secret''
   \<and> fst (BaseUserService_LoginUser StoreQueries
            ((stub_libs ''secret'')\<lparr>SignedString := \<lambda>t k. (enc t, None)\<rparr>)
            \<lparr>Login = ''alice'', Password = ''pw1''\<rparr>
            (alice_store, \<lparr>clock = 1700000000999999999, tick = 1, log = []\<rparr>))
     = (enc (NewWithClaims HS256
               [''sub'' \<mapsto> StrV ''alice'',
                ''exp'' \<mapsto> IntV 1700086400,
                ''iat'' \<mapsto> IntV 1700000001]),
        None)"
  by (simp add: generateJWT_def BaseUserService_LoginUser_def stub_defs store_defs example_defs
        Unix_def Add_def Hour_def)

subsection \<open>Register, then authenticate\<close>

lemma find_snoc:
  "find P (xs @ [x]) = (case find P xs of Some y \<Rightarrow> Some y | None \<Rightarrow> if P x then Some x else None)"
  by (induction xs) auto

lemma Store_CreateUser_accepted:
  assumes "Store_CreateUser p s = (None, s')"
  shows "online s'" and "find_user (CreateUserParams.Username p) s = None"
    and "find_user (CreateUserParams.Username p) s'
           = Some \<lparr>UserRow.Username = CreateUserParams.Username p,
                   UserRow.Passwdhash = CreateUserParams.Passwdhash p,
                   UserRow.Email = CreateUserParams.Email p,
                   UserRow.Name = [],
                   UserRow.Surname = [],
                   UserRow.PhoneNumber = CreateUserParams.PhoneNumber p,
                   UserRow.Age = CreateUserParams.Age p,
                   UserRow.Sex = CreateUserParams.Sex p,
                   UserRow.Weight = 0,
                   UserRow.Height = 0,
                   UserRow.Bmi = 0\<rparr>"
  using assms
  by (auto simp: Store_CreateUser_def find_user_def find_snoc split: if_splits option.splits)

lemma CreateUser_accepted:
  fixes L :: "'e Libs"
  assumes "BaseUserService_CreateUser StoreQueries L req (s, e) = (None, (s', e'))"
  obtains h e0 where
    "GenerateFromPassword L (CreateUserRequest.Passwdhash req) DefaultCost e = ((h, None), e0)"
    and "Store_LoginUserWithUsername (CreateUserRequest.Username req) s'
           = ((\<lparr>LoginUserWithUsernameRow.Username = CreateUserRequest.Username req,
                LoginUserWithUsernameRow.Passwdhash = h\<rparr>, None), s')"
    and "find_user (CreateUserRequest.Username req) s = None"
proof -
  obtain h herr e0 where
    g: "GenerateFromPassword L (CreateUserRequest.Passwdhash req) DefaultCost e = ((h, herr), e0)"
    by (metis surj_pair)
  let ?p = "\<lparr>CreateUserParams.Username = CreateUserRequest.Username req,
             CreateUserParams.Passwdhash = h,
             CreateUserParams.Email = CreateUserRequest.Email req,
             CreateUserParams.PhoneNumber = CreateUserRequest.PhoneNumber req,
             CreateUserParams.Age = CreateUserRequest.Age req,
             CreateUserParams.Sex = CreateUserRequest.Sex req\<rparr>"
  from assms g have "herr = None" and c: "Store_CreateUser ?p s = (None, s')"
    by (auto simp: BaseUserService_CreateUser_def StoreQueries_def
          split: option.splits prod.splits)
  note acc = Store_CreateUser_accepted [OF c]
  have "Store_LoginUserWithUsername (CreateUserRequest.Username req) s'
          = ((\<lparr>LoginUserWithUsernameRow.Username = CreateUserRequest.Username req,
               LoginUserWithUsernameRow.Passwdhash = h\<rparr>, None), s')"
    using acc(1) acc(3) by (simp add: Store_LoginUserWithUsername_def)
  with g \<open>herr = None\<close> acc(2) show thesis
    by (intro that [of h e0]) simp_all
qed

text \<open>
  C1. When \<open>CreateUser\<close> accepts a request on the store, the store held no row for the
  username, and a later \<open>LoginUser\<close> with the same username and password on the resulting
  store returns no error and a token signed for the subject that is this username. This
  asks of bcrypt that it verifies a password against the hash it made of it, and of jwt
  that signing with the process's key succeeds.
\<close>

theorem register_then_authenticate:
  fixes L :: "'e Libs"
  assumes "bcrypt_verifies_own_hash L" and "signing_succeeds L"
    and "BaseUserService_CreateUser StoreQueries L req (s, e) = (None, (s', e'))"
  shows "find_user (CreateUserRequest.Username req) s = None
       \<and> (\<exists>t token e''.
            BaseUserService_LoginUser StoreQueries L
              \<lparr>Login = CreateUserRequest.Username req,
               Password = CreateUserRequest.Passwdhash req\<rparr> (s', later)
              = ((token, None), (s', e''))
          \<and> SignedString L t (key L) = (token, None)
          \<and> Method t = HS256
          \<and> Claims t ''sub'' = Some (StrV (CreateUserRequest.Username req)))"
proof -
  from assms(3) obtain h e0 where
    g: "GenerateFromPassword L (CreateUserRequest.Passwdhash req) DefaultCost e = ((h, None), e0)"
    and l: "Store_LoginUserWithUsername (CreateUserRequest.Username req) s'
              = ((\<lparr>LoginUserWithUsernameRow.Username = CreateUserRequest.Username req,
                   LoginUserWithUsernameRow.Passwdhash = h\<rparr>, None), s')"
    and n: "find_user (CreateUserRequest.Username req) s = None"
    by (rule CreateUser_accepted)
  from assms(1) g have v: "CompareHashAndPassword L h (CreateUserRequest.Passwdhash req) = None"
    unfolding bcrypt_verifies_own_hash_def by blast
  obtain t u ea eb where nw: "Now L later = (t, ea)" "Now L ea = (u, eb)"
    by (metis surj_pair)
  let ?tok = "NewWithClaims HS256
                [''sub'' \<mapsto> StrV (CreateUserRequest.Username req),
                 ''exp'' \<mapsto> IntV (Unix t + 86400),
                 ''iat'' \<mapsto> IntV (Unix u)]"
  obtain token where sg: "SignedString L ?tok (key L) = (token, None)"
    using assms(2) unfolding signing_succeeds_def by (metis prod.collapse)
  have j: "generateJWT L (CreateUserRequest.Username req) later = ((token, None), eb)"
    using generateJWT_claims [OF nw] sg by simp
  have "BaseUserService_LoginUser StoreQueries L
          \<lparr>Login = CreateUserRequest.Username req,
           Password = CreateUserRequest.Passwdhash req\<rparr> (s', later)
          = ((token, None), (s', eb))"
    using l v j by (simp add: BaseUserService_LoginUser_def StoreQueries_def)
  moreover have "Method ?tok = HS256"
    and "Claims ?tok ''sub'' = Some (StrV (CreateUserRequest.Username req))"
    by (simp_all add: NewWithClaims_def)
  ultimately show ?thesis
    using n sg by blast
qed

theorem register_then_authenticate_witness:
  "bcrypt_verifies_own_hash (stub_libs ''secret'')
   \<and> signing_succeeds (stub_libs ''secret'')
   \<and> BaseUserService_CreateUser StoreQueries (stub_libs ''secret'') alice_req (empty_store, env0)
       = (None, (alice_store, env0))
   \<and> BaseUserService_LoginUser StoreQueries (stub_libs ''secret'')
        \<lparr>Login = ''alice'', Password = ''pw1''\<rparr> (alice_store, env0)
       = ((''jwt.alice'', None), (alice_store, env0\<lparr>clock := 2\<rparr>))"
proof -
  let ?L = "stub_libs ''secret''"
  have b: "bcrypt_verifies_own_hash ?L"
    by (rule stub_bcrypt_verifies_own_hash)
  have g: "signing_succeeds ?L"
    by (simp add: stub_signing_succeeds)
  have c: "BaseUserService_CreateUser StoreQueries ?L alice_req (empty_store, env0)
             = (None, (alice_store, env0))"
    by (simp add: BaseUserService_CreateUser_def store_defs stub_defs example_defs)
  have l: "BaseUserService_LoginUser StoreQueries ?L
             \<lparr>Login = ''alice'', Password = ''pw1''\<rparr> (alice_store, env0)
             = ((''jwt.alice'', None), (alice_store, env0\<lparr>clock := 2\<rparr>))"
    by (simp add: BaseUserService_LoginUser_def generateJWT_def NewWithClaims_def
          store_defs stub_defs example_defs)
  show ?thesis
    using b g c l register_then_authenticate [OF b g c, of env0] by simp
qed


subsection \<open>Tags\<close>

lemma AddUserTag_accepted:
  fixes L :: "'e Libs"
  assumes "BaseUserService_AddUserTag StoreQueries L username userTag (s, e) = (None, (s', e'))"
  shows "online s'"
    and "\<lparr>TagRow.Username = username, TagRow.TagName = UserTag.Name userTag,
          TagRow.TagTypeName = TagType userTag\<rparr> \<in> set (user_tags s')"
  using assms
  by (auto simp: BaseUserService_AddUserTag_def StoreQueries_def Store_InsertUserTag_def
        split: if_splits option.splits prod.splits)

lemma DeleteUserTag_accepted:
  fixes L :: "'e Libs"
  assumes "BaseUserService_DeleteUserTag StoreQueries L username tagName (s, e) = (None, (s', e'))"
  shows "online s'"
    and "\<forall>r \<in> set (user_tags s'). \<not> (TagRow.Username r = username \<and> TagRow.TagName r = tagName)"
  using assms
  by (auto simp: BaseUserService_DeleteUserTag_def StoreQueries_def Store_DeleteUserTag_def
        keeps_tag_def split: if_splits option.splits prod.splits)

lemma DisplayUserTag_online:
  fixes L :: "'e Libs"
  assumes "online s"
  shows "BaseUserService_DisplayUserTag StoreQueries L username (s, e)
           = ((map tag_row (filter (\<lambda>t. TagRow.Username t = username) (user_tags s)), None),
              (s, e))"
  using assms
  by (simp add: BaseUserService_DisplayUserTag_def StoreQueries_def Store_DisplayUserTag_def)

text \<open>
  C6. After an \<open>AddUserTag\<close> that the store accepts, \<open>DisplayUserTag\<close> for the same user
  returns a list that holds the added (tag name, tag type) pair; after a \<open>DeleteUserTag\<close> of
  that tag name, it returns a list that does not hold it.
\<close>

theorem add_then_list_delete_then_list:
  fixes L :: "'e Libs"
  assumes "BaseUserService_AddUserTag StoreQueries L username userTag (s, e) = (None, (s', e'))"
    and "BaseUserService_DeleteUserTag StoreQueries L username (UserTag.Name userTag) (s', f)
           = (None, (s'', f'))"
  shows "(\<exists>rows. BaseUserService_DisplayUserTag StoreQueries L username (s', g)
                   = ((rows, None), (s', g))
              \<and> \<lparr>DisplayUserTagRow.TagName = UserTag.Name userTag,
                  DisplayUserTagRow.TagTypeName = TagType userTag\<rparr> \<in> set rows)
       \<and> (\<exists>rows. BaseUserService_DisplayUserTag StoreQueries L username (s'', g')
                   = ((rows, None), (s'', g'))
              \<and> \<lparr>DisplayUserTagRow.TagName = UserTag.Name userTag,
                  DisplayUserTagRow.TagTypeName = TagType userTag\<rparr> \<notin> set rows)"
proof -
  let ?row = "\<lparr>TagRow.Username = username, TagRow.TagName = UserTag.Name userTag,
               TagRow.TagTypeName = TagType userTag\<rparr>"
  let ?pair = "\<lparr>DisplayUserTagRow.TagName = UserTag.Name userTag,
                DisplayUserTagRow.TagTypeName = TagType userTag\<rparr>"
  note added = AddUserTag_accepted [OF assms(1)]
  note deleted = DeleteUserTag_accepted [OF assms(2)]
  have "?row \<in> set (filter (\<lambda>t. TagRow.Username t = username) (user_tags s'))"
    using added(2) by simp
  then have "tag_row ?row \<in> set (map tag_row (filter (\<lambda>t. TagRow.Username t = username) (user_tags s')))"
    unfolding set_map by (rule imageI)
  then have listed: "?pair \<in> set (map tag_row (filter (\<lambda>t. TagRow.Username t = username) (user_tags s')))"
    by (simp add: tag_row_def)
  have gone: "?pair \<notin> set (map tag_row (filter (\<lambda>t. TagRow.Username t = username) (user_tags s'')))"
  proof
    assume "?pair \<in> set (map tag_row (filter (\<lambda>t. TagRow.Username t = username) (user_tags s'')))"
    then obtain r where "r \<in> set (user_tags s'')" and "TagRow.Username r = username"
      and "tag_row r = ?pair"
      by auto
    then have "TagRow.TagName r = UserTag.Name userTag"
      by (simp add: tag_row_def)
    with deleted(2) \<open>r \<in> set (user_tags s'')\<close> \<open>TagRow.Username r = username\<close>
    show False by blast
  qed
  have "\<exists>rows. BaseUserService_DisplayUserTag StoreQueries L username (s', g)
                 = ((rows, None), (s', g)) \<and> ?pair \<in> set rows"
    using DisplayUserTag_online [OF added(1)] listed by (intro exI conjI)
  moreover
  have "\<exists>rows. BaseUserService_DisplayUserTag StoreQueries L username (s'', g')
                 = ((rows, None), (s'', g')) \<and> ?pair \<notin> set rows"
    using DisplayUserTag_online [OF deleted(1)] gone by (intro exI conjI)
  ultimately show ?thesis ..
qed

theorem add_then_list_delete_then_list_witness:
  "BaseUserService_AddUserTag StoreQueries (stub_libs ''secret'') ''alice'' vegan (alice_store, env0)
     = (None, (alice_store\<lparr>user_tags := [vegan_row]\<rparr>, env0))
   \<and> BaseUserService_DisplayUserTag StoreQueries (stub_libs ''secret'') ''alice''
       (alice_store\<lparr>user_tags := [vegan_row]\<rparr>, env0)
     = (([\<lparr>DisplayUserTagRow.TagName = ''vegan'', DisplayUserTagRow.TagTypeName = ''diet''\<rparr>], None),
        (alice_store\<lparr>user_tags := [vegan_row]\<rparr>, env0))
   \<and> BaseUserService_DeleteUserTag StoreQueries (stub_libs ''secret'') ''alice'' ''vegan''
       (alice_store\<lparr>user_tags := [vegan_row]\<rparr>, env0)
     = (None, (alice_store, env0))
   \<and> BaseUserService_DisplayUserTag StoreQueries (stub_libs ''secret'') ''alice'' (alice_store, env0)
     = (([], None), (alice_store, env0))"
proof -
  let ?L = "stub_libs ''secret''"
  let ?s = "alice_store\<lparr>user_tags := [vegan_row]\<rparr>"
  have a: "BaseUserService_AddUserTag StoreQueries ?L ''alice'' vegan (alice_store, env0)
             = (None, (?s, env0))"
    by (simp add: BaseUserService_AddUserTag_def store_defs example_defs vegan_def vegan_row_def)
  have d: "BaseUserService_DeleteUserTag StoreQueries ?L ''alice'' (UserTag.Name vegan) (?s, env0)
             = (None, (alice_store, env0))"
    by (simp add: BaseUserService_DeleteUserTag_def store_defs example_defs vegan_def vegan_row_def)
  have l: "BaseUserService_DisplayUserTag StoreQueries ?L ''alice'' (?s, env0)
         = (([\<lparr>DisplayUserTagRow.TagName = ''vegan'', DisplayUserTagRow.TagTypeName = ''diet''\<rparr>], None),
            (?s, env0))"
    by (simp add: BaseUserService_DisplayUserTag_def store_defs example_defs vegan_row_def)
  have m: "BaseUserService_DisplayUserTag StoreQueries ?L ''alice'' (alice_store, env0)
         = (([], None), (alice_store, env0))"
    by (simp add: BaseUserService_DisplayUserTag_def store_defs example_defs)
  have n: "UserTag.Name vegan = ''vegan''"
    by (simp add: vegan_def)
  show ?thesis
    using a l m d [unfolded n] add_then_list_delete_then_list [OF a d, of env0 env0]
    by simp
qed

subsection \<open>Passwords longer than bcrypt reads\<close>

lemmas bcrypt_defs = with_bcrypt_def bcrypt_GenerateFromPassword_def
  bcrypt_CompareHashAndPassword_def bcrypt_key_def MinCost_def MaxCost_def DefaultCost_def
  stub_bcrypt_def stub_read_salt_def stub_hash_with_def stub_cost_and_salt_def
  long_password_def long_req_def long_store_def

lemma bcrypt_key_past_72:
  "72 \<le> length password \<Longrightarrow> bcrypt_key (password @ rest) = bcrypt_key password"
  by (simp add: bcrypt_key_def)

lemma bcrypt_Compare_past_72:
  "72 \<le> length password \<Longrightarrow>
     bcrypt_CompareHashAndPassword B h (password @ rest) = bcrypt_CompareHashAndPassword B h password"
  by (simp add: bcrypt_CompareHashAndPassword_def bcrypt_key_past_72 split: sum.splits)

lemma with_bcrypt_simps:
  "GenerateFromPassword (with_bcrypt B L) = bcrypt_GenerateFromPassword B"
  "CompareHashAndPassword (with_bcrypt B L) = bcrypt_CompareHashAndPassword B"
  "SignedString (with_bcrypt B L) = SignedString L"
  "Now (with_bcrypt B L) = Now L"
  "key (with_bcrypt B L) = key L"
  "Validate (with_bcrypt B L) = Validate L"
  "Println (with_bcrypt B L) = Println L"
  by (simp_all add: with_bcrypt_def)

lemma stub_with_bcrypt_verifies_own_hash:
  "bcrypt_verifies_own_hash (with_bcrypt stub_bcrypt L)"
  by (auto simp: bcrypt_verifies_own_hash_def with_bcrypt_simps bcrypt_GenerateFromPassword_def
        bcrypt_CompareHashAndPassword_def stub_bcrypt_def stub_read_salt_def stub_hash_with_def
        stub_cost_and_salt_def Let_def split: if_splits)

lemma LoginUser_verified:
  fixes L :: "'e Libs"
  assumes "signing_succeeds L"
    and "LoginUserWithUsername R (Login loginData) d = ((user, None), d')"
    and "CompareHashAndPassword L (LoginUserWithUsernameRow.Passwdhash user)
           (Password loginData) = None"
  shows "\<exists>token e'. BaseUserService_LoginUser R L loginData (d, e) = ((token, None), (d', e'))"
proof -
  obtain token jerr e' where
    j: "generateJWT L (LoginUserWithUsernameRow.Username user) e = ((token, jerr), e')"
    by (metis surj_pair)
  from assms(1) have "snd (fst (generateJWT L (LoginUserWithUsernameRow.Username user) e)) = None"
    by (simp add: generateJWT_def signing_succeeds_def split: prod.splits)
  with j have "jerr = None" by simp
  with j assms(2,3) show ?thesis
    by (simp add: BaseUserService_LoginUser_def)
qed

text \<open>
  C5. Verifying another plaintext against the stored hash does not always fail. bcrypt
  reads 72 bytes of a password. \<open>CreateUser\<close> refuses a longer one, since
  \<open>GenerateFromPassword\<close> does, but \<open>LoginUser\<close> hands a password of any length to
  \<open>CompareHashAndPassword\<close>. So after \<open>CreateUser\<close> has accepted a password of 72 bytes,
  every longer password that starts with it, a different plaintext, verifies against the
  hash in the store, and \<open>LoginUser\<close> returns a token for it. This holds whatever the
  cipher is, as long as bcrypt verifies a password against the hash it made of it and
  signing succeeds.
\<close>

theorem LoginUser_accepts_longer_password:
  fixes B :: "'e Bcrypt" and L :: "'e Libs"
  assumes "bcrypt_verifies_own_hash (with_bcrypt B L)" and "signing_succeeds (with_bcrypt B L)"
    and "BaseUserService_CreateUser StoreQueries (with_bcrypt B L) req (s, e) = (None, (s', e'))"
    and "length (CreateUserRequest.Passwdhash req) = 72" and "rest \<noteq> []"
  shows "CreateUserRequest.Passwdhash req @ rest \<noteq> CreateUserRequest.Passwdhash req
       \<and> (\<exists>row. find_user (CreateUserRequest.Username req) s' = Some row
              \<and> CompareHashAndPassword (with_bcrypt B L) (UserRow.Passwdhash row)
                   (CreateUserRequest.Passwdhash req @ rest) = None)
       \<and> (\<exists>token e''.
            BaseUserService_LoginUser StoreQueries (with_bcrypt B L)
              \<lparr>Login = CreateUserRequest.Username req,
               Password = CreateUserRequest.Passwdhash req @ rest\<rparr> (s', later)
              = ((token, None), (s', e'')))"
proof -
  let ?L = "with_bcrypt B L"
  let ?pw = "CreateUserRequest.Passwdhash req"
  from assms(3) obtain h e0 where
    g: "GenerateFromPassword ?L ?pw DefaultCost e = ((h, None), e0)"
    and l: "Store_LoginUserWithUsername (CreateUserRequest.Username req) s'
              = ((\<lparr>LoginUserWithUsernameRow.Username = CreateUserRequest.Username req,
                   LoginUserWithUsernameRow.Passwdhash = h\<rparr>, None), s')"
    by (rule CreateUser_accepted)
  from assms(1) g have "CompareHashAndPassword ?L h ?pw = None"
    unfolding bcrypt_verifies_own_hash_def by blast
  then have v: "CompareHashAndPassword ?L h (?pw @ rest) = None"
    using assms(4) by (simp add: with_bcrypt_simps bcrypt_Compare_past_72)
  from l obtain row where r: "find_user (CreateUserRequest.Username req) s' = Some row"
    and rh: "UserRow.Passwdhash row = h"
    by (auto simp: Store_LoginUserWithUsername_def split: if_splits option.splits)
  let ?ld = "\<lparr>Login = CreateUserRequest.Username req, Password = ?pw @ rest\<rparr>"
  let ?user = "\<lparr>LoginUserWithUsernameRow.Username = CreateUserRequest.Username req,
                 LoginUserWithUsernameRow.Passwdhash = h\<rparr>"
  have lk: "LoginUserWithUsername StoreQueries (Login ?ld) s' = ((?user, None), s')"
    using l by (simp add: StoreQueries_def)
  have cp: "CompareHashAndPassword ?L (LoginUserWithUsernameRow.Passwdhash ?user)
              (Password ?ld) = None"
    using v by simp
  have "\<exists>token e''. BaseUserService_LoginUser StoreQueries ?L ?ld (s', later)
          = ((token, None), (s', e''))"
    by (rule LoginUser_verified [OF assms(2) lk cp])
  moreover have "?pw @ rest \<noteq> ?pw"
    using assms(5) by simp
  moreover have "\<exists>row. find_user (CreateUserRequest.Username req) s' = Some row
              \<and> CompareHashAndPassword ?L (UserRow.Passwdhash row) (?pw @ rest) = None"
  proof (intro exI conjI)
    show "find_user (CreateUserRequest.Username req) s' = Some row"
      by (rule r)
    show "CompareHashAndPassword ?L (UserRow.Passwdhash row) (?pw @ rest) = None"
      unfolding rh by (rule v)
  qed
  ultimately show ?thesis
    by (intro conjI)
qed

theorem LoginUser_accepts_longer_password_witness:
  "BaseUserService_CreateUser StoreQueries (with_bcrypt stub_bcrypt (stub_libs ''secret''))
     long_req (empty_store, env0) = (None, (long_store, env0))
   \<and> long_password @ ''x'' \<noteq> long_password
   \<and> BaseUserService_LoginUser StoreQueries (with_bcrypt stub_bcrypt (stub_libs ''secret''))
       \<lparr>Login = ''alice'', Password = long_password @ ''x''\<rparr> (long_store, env0)
     = ((''jwt.alice'', None), (long_store, env0\<lparr>clock := 2\<rparr>))"
proof -
  let ?L = "with_bcrypt stub_bcrypt (stub_libs ''secret'')"
  have b: "bcrypt_verifies_own_hash ?L"
    by (rule stub_with_bcrypt_verifies_own_hash)
  have g: "signing_succeeds ?L"
    by (simp add: signing_succeeds_def with_bcrypt_simps stub_defs)
  have c: "BaseUserService_CreateUser StoreQueries ?L long_req (empty_store, env0)
             = (None, (long_store, env0))"
    by (simp add: BaseUserService_CreateUser_def store_defs stub_defs example_defs bcrypt_defs)
  have n: "length (CreateUserRequest.Passwdhash long_req) = 72"
    by (simp add: long_req_def long_password_def)
  have l: "BaseUserService_LoginUser StoreQueries ?L
             \<lparr>Login = ''alice'', Password = long_password @ ''x''\<rparr> (long_store, env0)
             = ((''jwt.alice'', None), (long_store, env0\<lparr>clock := 2\<rparr>))"
    by (simp add: BaseUserService_LoginUser_def generateJWT_def NewWithClaims_def
          store_defs stub_defs example_defs bcrypt_defs)
  have x: "long_password @ ''x'' \<noteq> long_password"
    by simp
  show ?thesis
    using c l x LoginUser_accepts_longer_password [OF b g c n, of "''x''" env0]
    by simp
qed

end
